theory Spec2Isabelle
  imports Main "HOL-Library.Sublist"
begin

text \<open>
  The HTTP client of the application (\<^verbatim>\<open>src/services/api.ts\<close>: the class \<^verbatim>\<open>ApiService\<close>, its
  three interceptor chains, the shared execution path \<^verbatim>\<open>makeRequest\<close> and the default client
  \<^verbatim>\<open>apiClient\<close>) and the configuration module it reads (\<^verbatim>\<open>config/env\<close>), as functions of
  HOL. A promise is the way it settles; what the code does to the browser (the persisted
  store, the location, the console, the network) is a state passed along; \<^verbatim>\<open>fetch\<close>,
  \<^verbatim>\<open>JSON.stringify\<close> and \<^verbatim>\<open>getErrorMessage\<close> are parameters.
\<close>

section \<open>JavaScript values\<close>

text \<open>
  The values that travel through the HTTP client of \<^verbatim>\<open>src/services/api.ts\<close>: decoded
  JSON payloads, the \<^verbatim>\<open>data\<close> argument of \<^verbatim>\<open>post\<close>, \<^verbatim>\<open>put\<close> and \<^verbatim>\<open>patch\<close>, and the fields
  of an error body. Numbers are the integer-valued ones. An object is the list of its own
  properties (keys distinct, as \<^verbatim>\<open>JSON.parse\<close> leaves them). A string is the list of the
  bytes of its UTF-8 encoding.
\<close>

datatype jsval =
    JUndefined
  | JNull
  | JBool bool
  | JNum int
  | JStr string
  | JArr "jsval list"
  | JObj "(string \<times> jsval) list"

text \<open>JavaScript truthiness, as used by \<^verbatim>\<open>||\<close>, \<^verbatim>\<open>&&\<close>, \<^verbatim>\<open>!\<close> and \<^verbatim>\<open>? :\<close>.\<close>

fun truthy :: "jsval \<Rightarrow> bool" where
  "truthy JUndefined = False"
| "truthy JNull = False"
| "truthy (JBool b) = b"
| "truthy (JNum n) = (n \<noteq> 0)"
| "truthy (JStr s) = (s \<noteq> [])"
| "truthy (JArr _) = True"
| "truthy (JObj _) = True"

text \<open>\<^verbatim>\<open>a || b\<close> on values.\<close>

definition js_or :: "jsval \<Rightarrow> jsval \<Rightarrow> jsval" where
  "js_or a b = (if truthy a then a else b)"

text \<open>\<^verbatim>\<open>a || b\<close> where \<^verbatim>\<open>a\<close> is an optional string: undefined and \<^verbatim>\<open>''\<close> are falsy.\<close>

definition str_or :: "string option \<Rightarrow> string \<Rightarrow> string" where
  "str_or a b = (case a of None \<Rightarrow> b | Some s \<Rightarrow> if s = [] then b else s)"

text \<open>
  The numbers that are timeouts and results of \<^verbatim>\<open>parseInt\<close>: \<^verbatim>\<open>NaN\<close>, the two infinities,
  and the integer-valued doubles (\<open>Num n\<close>, for \<open>n\<close> the value of a double; \<open>Num 0\<close> stands
  for both zeros).
\<close>

datatype jsnumber = NaN | Num int | PosInfinity | NegInfinity

text \<open>\<^verbatim>\<open>a || b\<close> where \<^verbatim>\<open>a\<close> is an optional number: undefined, \<^verbatim>\<open>0\<close> and \<^verbatim>\<open>NaN\<close> are falsy.\<close>

definition num_or :: "jsnumber option \<Rightarrow> jsnumber \<Rightarrow> jsnumber" where
  "num_or a b =
     (case a of
        None \<Rightarrow> b
      | Some n \<Rightarrow> if n = Num 0 \<or> n = NaN then b else n)"

text \<open>\<^verbatim>\<open>String(n)\<close> for a natural number, as a template literal or a property key renders it.\<close>

fun show_nat :: "nat \<Rightarrow> string" where
  "show_nat n =
     (if n < 10 then [''0123456789'' ! n]
      else show_nat (n div 10) @ [''0123456789'' ! (n mod 10)])"

declare show_nat.simps [simp del]

section \<open>Errors and completions\<close>

text \<open>
  \<^verbatim>\<open>class ApiClientError extends Error\<close>. The message and the code are typed \<^verbatim>\<open>string\<close>, but
  \<^verbatim>\<open>makeRequest\<close> passes whatever the decoded error body holds, so the fields carry values.
  The status, the code and the details are stored as they come; \<open>message\<close> is the argument
  of \<^verbatim>\<open>super(message)\<close>, which keeps a string as it is and turns any other value into its
  text.
\<close>

record ApiClientError =
  message :: jsval
  status :: nat
  code :: jsval
  details :: jsval

text \<open>
  What a \<^verbatim>\<open>throw\<close> or a rejected promise carries: an \<^verbatim>\<open>ApiClientError\<close>, another error
  object (its \<^verbatim>\<open>name\<close> and \<^verbatim>\<open>message\<close>), or any other value.
\<close>

datatype thrown =
    ApiErr ApiClientError
  | JsError string string
  | ThrownValue jsval

text \<open>\<^verbatim>\<open>error instanceof ApiClientError\<close>.\<close>

fun instanceofApiClientError :: "thrown \<Rightarrow> bool" where
  "instanceofApiClientError (ApiErr _) = True"
| "instanceofApiClientError _ = False"

text \<open>How an awaited promise settles.\<close>

datatype 'a completion = Resolved 'a | Rejected thrown

section \<open>Configuration and request descriptors\<close>

record ApiConfig =
  baseURL :: string
  timeout :: jsnumber
  headers :: "string \<rightharpoonup> string"

text \<open>
  \<^verbatim>\<open>HeadersInit\<close>, the type of the \<^verbatim>\<open>headers\<close> of a \<^verbatim>\<open>RequestInit\<close>: a plain record, a
  \<^verbatim>\<open>Headers\<close> instance (with the entries it holds), or an array of name and value pairs.
  The record is the one form the client itself builds; at run time its values are what
  a spread put there, a string or one of the pairs of an array.
\<close>

datatype header_value = HeaderText string | HeaderPair string string

datatype HeadersInit =
    HeadersRecord "string \<rightharpoonup> header_value"
  | HeadersInstance "(string \<times> string) list"
  | HeadersArray "(string \<times> string) list"

text \<open>
  The object spread \<^verbatim>\<open>{...headers}\<close> copies the own enumerable properties: all of a plain
  record, none of a \<^verbatim>\<open>Headers\<close> instance (its entries are internal), the elements of an array
  under their indices, and nothing of \<^verbatim>\<open>undefined\<close>.
\<close>

fun spreadHeaders :: "HeadersInit option \<Rightarrow> (string \<rightharpoonup> header_value)" where
  "spreadHeaders None = Map.empty"
| "spreadHeaders (Some (HeadersRecord r)) = r"
| "spreadHeaders (Some (HeadersInstance entries)) = Map.empty"
| "spreadHeaders (Some (HeadersArray pairs)) =
     map_of (zip (map show_nat [0..<length pairs]) (map (\<lambda>(name, v). HeaderPair name v) pairs))"

text \<open>The spread of the client's default headers, a \<^verbatim>\<open>Record<string, string>\<close>.\<close>

definition spreadRecord :: "(string \<rightharpoonup> string) \<Rightarrow> (string \<rightharpoonup> header_value)" where
  "spreadRecord r = (\<lambda>key. map_option HeaderText (r key))"

text \<open>
  \<^verbatim>\<open>interface RequestConfig extends RequestInit\<close>, with the fields the client reads or
  writes (\<open>method'\<close> is its \<^verbatim>\<open>method\<close>); an absent field is \<open>None\<close>.
\<close>

record RequestConfig =
  method' :: "string option"
  headers :: "HeadersInit option"
  body :: "string option"
  timeout :: "jsnumber option"
  baseURL :: "string option"

section \<open>URL resolution\<close>

text \<open>\<^verbatim>\<open>s.replace(/\/$/, '')\<close>: one trailing slash is removed.\<close>

definition replaceTrailingSlash :: "string \<Rightarrow> string" where
  "replaceTrailingSlash s = (if s \<noteq> [] \<and> last s = CHR ''/'' then butlast s else s)"

text \<open>\<^verbatim>\<open>s.replace(/^\//, '')\<close>: one leading slash is removed.\<close>

fun replaceLeadingSlash :: "string \<Rightarrow> string" where
  "replaceLeadingSlash (c # cs) = (if c = CHR ''/'' then cs else c # cs)"
| "replaceLeadingSlash [] = []"

text \<open>
  \<^verbatim>\<open>ApiService.buildUrl(url, baseURL?)\<close>; the first argument is \<^verbatim>\<open>this.config\<close>.
\<close>

definition buildUrl :: "ApiConfig \<Rightarrow> string \<Rightarrow> string option \<Rightarrow> string" where
  "buildUrl cfg url baseURL' =
     (let base = str_or baseURL' (ApiConfig.baseURL cfg)
      in if prefix ''http'' url then url
         else replaceTrailingSlash base @ ''/'' @ replaceLeadingSlash url)"

section \<open>Property access on values\<close>

text \<open>
  \<^verbatim>\<open>value.key\<close> for a key that no built-in prototype defines (\<^verbatim>\<open>message\<close>, \<^verbatim>\<open>code\<close>, \<^verbatim>\<open>details\<close>,
  \<^verbatim>\<open>data\<close>): reading a property of \<^verbatim>\<open>null\<close> or \<^verbatim>\<open>undefined\<close> throws a \<^verbatim>\<open>TypeError\<close> (the text
  is the engine's), an object yields its own property or \<^verbatim>\<open>undefined\<close>, every other value
  yields \<^verbatim>\<open>undefined\<close>.
\<close>

definition nullPropertyError :: "string \<Rightarrow> string \<Rightarrow> thrown" where
  "nullPropertyError receiver key =
     JsError ''TypeError''
       (''Cannot read properties of '' @ receiver @ '' (reading '' @ [CHR 0x27] @ key @ [CHR 0x27] @ '')'')"

fun getProp :: "jsval \<Rightarrow> string \<Rightarrow> thrown + jsval" where
  "getProp JUndefined key = Inl (nullPropertyError ''undefined'' key)"
| "getProp JNull key = Inl (nullPropertyError ''null'' key)"
| "getProp (JObj props) key = Inr (case map_of props key of None \<Rightarrow> JUndefined | Some v \<Rightarrow> v)"
| "getProp _ key = Inr JUndefined"

text \<open>\<^verbatim>\<open>typeof value\<close>.\<close>

fun typeof :: "jsval \<Rightarrow> string" where
  "typeof JUndefined = ''undefined''"
| "typeof JNull = ''object''"
| "typeof (JBool _) = ''boolean''"
| "typeof (JNum _) = ''number''"
| "typeof (JStr _) = ''string''"
| "typeof (JArr _) = ''object''"
| "typeof (JObj _) = ''object''"

text \<open>\<^verbatim>\<open>'data' in value\<close> for a value of type object: an own property named \<^verbatim>\<open>data\<close>.\<close>

fun dataIn :: "jsval \<Rightarrow> bool" where
  "dataIn (JObj props) = (map_of props ''data'' \<noteq> None)"
| "dataIn _ = False"

section \<open>The browser around the client\<close>

text \<open>
  What the client and its default interceptors touch outside themselves: the persisted
  store, the location of the user agent, the diagnostic log, and the network. The network
  log records each \<^verbatim>\<open>fetch\<close> the client issues, with the resolved URL and the descriptor it
  was issued with, and each \<^verbatim>\<open>controller.abort()\<close> that cancels a request in flight.
\<close>

datatype net_event =
    FetchIssued string RequestConfig
  | FetchAborted string

record world =
  localStorage :: "string \<rightharpoonup> string"
  location_href :: string
  console_errors :: "ApiClientError list"
  network_log :: "net_event list"

text \<open>\<^verbatim>\<open>Response\<close>: the status line and how \<^verbatim>\<open>response.json()\<close> settles.\<close>

record Response =
  status :: nat
  statusText :: string
  json :: "jsval completion"

text \<open>\<^verbatim>\<open>response.ok\<close>: the status is in the range 200 to 299.\<close>

definition ok :: "Response \<Rightarrow> bool" where
  "ok response = (200 \<le> Response.status response \<and> Response.status response \<le> 299)"

text \<open>
  How the network answers a \<^verbatim>\<open>fetch\<close>: it settles after some milliseconds, with a response
  or with a failure, or it never does. \<^verbatim>\<open>fetch\<close> itself is the environment's, a parameter of
  the client.
\<close>

datatype fetch_settlement = FetchResponse Response | FetchFailure thrown

datatype network = Settles nat fetch_settlement | NeverSettles

type_synonym fetch_fn = "string \<Rightarrow> RequestConfig \<Rightarrow> network"

text \<open>
  The \<^verbatim>\<open>AbortError\<close> with which \<^verbatim>\<open>fetch\<close> rejects when its signal is aborted (the text is the
  engine's).
\<close>

definition abortError :: thrown where
  "abortError = JsError ''AbortError'' ''signal is aborted without reason''"

text \<open>
  \<^verbatim>\<open>setTimeout(() => controller.abort(), timeout)\<close> racing \<^verbatim>\<open>await fetch(..., {signal})\<close>:
  the fetch wins when it settles within \<^verbatim>\<open>timeout\<close> milliseconds (\<^verbatim>\<open>clearTimeout\<close> then
  disarms the timer on a response); otherwise the timer fires first and the result is
  \<open>None\<close>. A fetch that settles at the very millisecond of the timer counts as in time.
  The browser takes the delay as a 32-bit signed integer: \<^verbatim>\<open>NaN\<close> and the infinities are 0,
  any other number wraps around modulo \<open>2 ^ 32\<close>, and a negative result is 0.
\<close>

definition timerDelay :: "jsnumber \<Rightarrow> int" where
  "timerDelay timeout' =
     (case timeout' of
        Num n \<Rightarrow>
          (let x = n mod 2 ^ 32
           in if 2 ^ 31 \<le> x then 0 else x)
      | _ \<Rightarrow> 0)"

definition settlesWithin :: "network \<Rightarrow> jsnumber \<Rightarrow> bool" where
  "settlesWithin net timeout' =
     (case net of
        Settles latency result \<Rightarrow> int latency \<le> timerDelay timeout'
      | NeverSettles \<Rightarrow> False)"

definition awaitFetch :: "network \<Rightarrow> jsnumber \<Rightarrow> fetch_settlement option" where
  "awaitFetch net timeout' =
     (case net of
        Settles latency result \<Rightarrow> if settlesWithin net timeout' then Some result else None
      | NeverSettles \<Rightarrow> None)"

section \<open>Interceptor chains\<close>

text \<open>
  An interceptor reads and writes the browser and settles: it resolves with a value or
  rejects with what it threw. (One whose promise never settles leaves the call pending
  for ever; such interceptors are outside this model.)
\<close>

type_synonym RequestInterceptor =
  "RequestConfig \<Rightarrow> world \<Rightarrow> RequestConfig completion \<times> world"

type_synonym ResponseInterceptor =
  "jsval \<Rightarrow> world \<Rightarrow> jsval completion \<times> world"

text \<open>
  \<^verbatim>\<open>type ErrorInterceptor = (error: ApiClientError) => Promise<never>\<close>. Nothing stops an
  interceptor from resolving at run time; its value is then discarded.
\<close>

type_synonym ErrorInterceptor =
  "ApiClientError \<Rightarrow> world \<Rightarrow> unit completion \<times> world"

record ApiService =
  config :: ApiConfig
  requestInterceptors :: "RequestInterceptor list"
  responseInterceptors :: "ResponseInterceptor list"
  errorInterceptors :: "ErrorInterceptor list"

definition addRequestInterceptor :: "RequestInterceptor \<Rightarrow> ApiService \<Rightarrow> ApiService" where
  "addRequestInterceptor interceptor svc =
     svc\<lparr>requestInterceptors := requestInterceptors svc @ [interceptor]\<rparr>"

definition addResponseInterceptor :: "ResponseInterceptor \<Rightarrow> ApiService \<Rightarrow> ApiService" where
  "addResponseInterceptor interceptor svc =
     svc\<lparr>responseInterceptors := responseInterceptors svc @ [interceptor]\<rparr>"

definition addErrorInterceptor :: "ErrorInterceptor \<Rightarrow> ApiService \<Rightarrow> ApiService" where
  "addErrorInterceptor interceptor svc =
     svc\<lparr>errorInterceptors := errorInterceptors svc @ [interceptor]\<rparr>"

fun applyRequestInterceptors ::
  "RequestInterceptor list \<Rightarrow> RequestConfig \<Rightarrow> world \<Rightarrow> RequestConfig completion \<times> world" where
  "applyRequestInterceptors [] finalConfig w = (Resolved finalConfig, w)"
| "applyRequestInterceptors (interceptor # rest) finalConfig w =
     (case interceptor finalConfig w of
        (Resolved next, w') \<Rightarrow> applyRequestInterceptors rest next w'
      | (Rejected e, w') \<Rightarrow> (Rejected e, w'))"

fun applyResponseInterceptors ::
  "ResponseInterceptor list \<Rightarrow> jsval \<Rightarrow> world \<Rightarrow> jsval completion \<times> world" where
  "applyResponseInterceptors [] finalResponse w = (Resolved finalResponse, w)"
| "applyResponseInterceptors (interceptor # rest) finalResponse w =
     (case interceptor finalResponse w of
        (Resolved next, w') \<Rightarrow> applyResponseInterceptors rest next w'
      | (Rejected e, w') \<Rightarrow> (Rejected e, w'))"

text \<open>
  \<^verbatim>\<open>applyErrorInterceptors\<close>: each interceptor is awaited in turn; one that throws ends the
  loop with what it threw, and after the loop the error itself is thrown.
\<close>

fun applyErrorInterceptors ::
  "ErrorInterceptor list \<Rightarrow> ApiClientError \<Rightarrow> world \<Rightarrow> jsval completion \<times> world" where
  "applyErrorInterceptors [] error w = (Rejected (ApiErr error), w)"
| "applyErrorInterceptors (interceptor # rest) error w =
     (case interceptor error w of
        (Resolved _, w') \<Rightarrow> applyErrorInterceptors rest error w'
      | (Rejected e, w') \<Rightarrow> (Rejected e, w'))"

section \<open>The shared execution path\<close>

text \<open>
  \<^verbatim>\<open>new ApiClientError(getErrorMessage(error), 0, 'NETWORK_ERROR')\<close>. \<^verbatim>\<open>getErrorMessage\<close> is
  imported from \<^verbatim>\<open>@/utils\<close> and is a parameter here.
\<close>

definition networkError :: "(thrown \<Rightarrow> string) \<Rightarrow> thrown \<Rightarrow> ApiClientError" where
  "networkError getErrorMessage error =
     \<lparr>message = JStr (getErrorMessage error), ApiClientError.status = 0,
      code = JStr ''NETWORK_ERROR'', details = JUndefined\<rparr>"

text \<open>The \<^verbatim>\<open>catch (error)\<close> block of \<^verbatim>\<open>makeRequest\<close>.\<close>

definition catchBlock ::
  "(thrown \<Rightarrow> string) \<Rightarrow> ErrorInterceptor list \<Rightarrow> thrown \<Rightarrow> world \<Rightarrow> jsval completion \<times> world" where
  "catchBlock getErrorMessage interceptors error w =
     (if instanceofApiClientError error then (Rejected error, w)
      else applyErrorInterceptors interceptors (networkError getErrorMessage error) w)"

text \<open>
  \<^verbatim>\<open>new ApiClientError(errorData.message || `HTTP ${response.status}: ${response.statusText}`,
  response.status, errorData.code || 'HTTP_ERROR', errorData.details)\<close>: the three property
  reads come first, in this order, and one that throws ends the construction.
\<close>

definition httpError :: "Response \<Rightarrow> jsval \<Rightarrow> thrown + ApiClientError" where
  "httpError response errorData =
     (case getProp errorData ''message'' of
        Inl e \<Rightarrow> Inl e
      | Inr msg \<Rightarrow>
          (case getProp errorData ''code'' of
             Inl e \<Rightarrow> Inl e
           | Inr cd \<Rightarrow>
               (case getProp errorData ''details'' of
                  Inl e \<Rightarrow> Inl e
                | Inr det \<Rightarrow>
                    Inr \<lparr>message =
                           js_or msg
                             (JStr (''HTTP '' @ show_nat (Response.status response) @ '': '' @
                                    statusText response)),
                         ApiClientError.status = Response.status response,
                         code = js_or cd (JStr ''HTTP_ERROR''),
                         details = det\<rparr>)))"

text \<open>
  The branch \<^verbatim>\<open>if (!response.ok) { ... }\<close>. The body is decoded with a fallback to \<^verbatim>\<open>{}\<close>; the
  error is constructed inside the \<^verbatim>\<open>try\<close>, so a property read that throws lands in the
  \<^verbatim>\<open>catch\<close> block. The chain's promise is returned without \<^verbatim>\<open>await\<close>, so what it rejects
  with goes to the caller as it is.
\<close>

definition httpErrorBranch ::
  "(thrown \<Rightarrow> string) \<Rightarrow> ErrorInterceptor list \<Rightarrow> Response \<Rightarrow> world \<Rightarrow> jsval completion \<times> world" where
  "httpErrorBranch getErrorMessage interceptors response w =
     (let errorData = (case Response.json response of Resolved v \<Rightarrow> v | Rejected _ \<Rightarrow> JObj [])
      in case httpError response errorData of
           Inl e \<Rightarrow> catchBlock getErrorMessage interceptors e w
         | Inr apiError \<Rightarrow> applyErrorInterceptors interceptors apiError w)"

text \<open>What issuing a \<^verbatim>\<open>fetch\<close> and aborting it leave in the network log.\<close>

definition issued :: "string \<Rightarrow> RequestConfig \<Rightarrow> world \<Rightarrow> world" where
  "issued fullUrl init w = w\<lparr>network_log := network_log w @ [FetchIssued fullUrl init]\<rparr>"

definition aborted :: "string \<Rightarrow> world \<Rightarrow> world" where
  "aborted fullUrl w = w\<lparr>network_log := network_log w @ [FetchAborted fullUrl]\<rparr>"

text \<open>
  The rest of the \<^verbatim>\<open>try\<close> block once \<^verbatim>\<open>await fetch(...)\<close> is over: the timer fired first
  (\<open>None\<close>), the fetch failed, or a response arrived. The decoding of a success body is
  awaited inside the \<^verbatim>\<open>try\<close>; the response chain's promise is returned without \<^verbatim>\<open>await\<close>,
  so the \<^verbatim>\<open>catch\<close> block never sees what it rejects with.
\<close>

definition afterFetch ::
  "ApiService \<Rightarrow> (thrown \<Rightarrow> string) \<Rightarrow> string \<Rightarrow> fetch_settlement option \<Rightarrow> world
     \<Rightarrow> jsval completion \<times> world" where
  "afterFetch svc getErrorMessage fullUrl outcome w2 =
     (case outcome of
        None \<Rightarrow>
          catchBlock getErrorMessage (errorInterceptors svc) abortError (aborted fullUrl w2)
      | Some (FetchFailure e) \<Rightarrow>
          catchBlock getErrorMessage (errorInterceptors svc) e w2
      | Some (FetchResponse response) \<Rightarrow>
          if \<not> ok response
          then httpErrorBranch getErrorMessage (errorInterceptors svc) response w2
          else (case Response.json response of
                  Rejected e \<Rightarrow> catchBlock getErrorMessage (errorInterceptors svc) e w2
                | Resolved data \<Rightarrow>
                    applyResponseInterceptors (responseInterceptors svc) data w2))"

text \<open>
  \<^verbatim>\<open>{...config, headers: {...this.config.headers, ...config.headers}}\<close>: the caller's options,
  with the headers replaced by a record of the default headers and, over them, what the
  spread copies of the caller's.
\<close>

definition mergedConfig :: "ApiService \<Rightarrow> RequestConfig \<Rightarrow> RequestConfig" where
  "mergedConfig svc cfg =
     cfg\<lparr>RequestConfig.headers :=
           Some (HeadersRecord (spreadRecord (ApiConfig.headers (config svc)) ++
                                spreadHeaders (RequestConfig.headers cfg)))\<rparr>"

text \<open>
  \<^verbatim>\<open>ApiService.makeRequest(url, config)\<close>: the request interceptors run on the merged
  options and are awaited inside the \<^verbatim>\<open>try\<close>; then the URL is resolved, the timer is armed
  and the fetch is issued with the final descriptor.
\<close>

definition makeRequest ::
  "ApiService \<Rightarrow> (thrown \<Rightarrow> string) \<Rightarrow> fetch_fn \<Rightarrow> string \<Rightarrow> RequestConfig \<Rightarrow> world
     \<Rightarrow> jsval completion \<times> world" where
  "makeRequest svc getErrorMessage fetch url cfg w =
     (case applyRequestInterceptors (requestInterceptors svc) (mergedConfig svc cfg) w of
        (Rejected e, w1) \<Rightarrow> catchBlock getErrorMessage (errorInterceptors svc) e w1
      | (Resolved finalConfig, w1) \<Rightarrow>
          (let fullUrl = buildUrl (config svc) url (RequestConfig.baseURL finalConfig);
               timeout' = num_or (RequestConfig.timeout finalConfig)
                            (ApiConfig.timeout (config svc))
           in afterFetch svc getErrorMessage fullUrl
                (awaitFetch (fetch fullUrl finalConfig) timeout')
                (issued fullUrl finalConfig w1)))"

section \<open>The HTTP methods\<close>

text \<open>The descriptor \<^verbatim>\<open>{}\<close>, and \<^verbatim>\<open>{...config}\<close> for an optional \<^verbatim>\<open>config\<close>.\<close>

definition emptyRequestConfig :: RequestConfig where
  "emptyRequestConfig =
     \<lparr>method' = None, headers = None, body = None, timeout = None, baseURL = None\<rparr>"

definition spreadConfig :: "RequestConfig option \<Rightarrow> RequestConfig" where
  "spreadConfig cfg = (case cfg of None \<Rightarrow> emptyRequestConfig | Some c \<Rightarrow> c)"

text \<open>
  \<^verbatim>\<open>data ? JSON.stringify(data) : undefined\<close>; \<^verbatim>\<open>JSON.stringify\<close> is the platform's, a
  parameter here.
\<close>

definition bodyOf :: "(jsval \<Rightarrow> string) \<Rightarrow> jsval \<Rightarrow> string option" where
  "bodyOf stringify data = (if truthy data then Some (stringify data) else None)"

definition get ::
  "ApiService \<Rightarrow> (thrown \<Rightarrow> string) \<Rightarrow> fetch_fn \<Rightarrow> string \<Rightarrow> RequestConfig option \<Rightarrow> world
     \<Rightarrow> jsval completion \<times> world" where
  "get svc getErrorMessage fetch url cfg w =
     makeRequest svc getErrorMessage fetch url ((spreadConfig cfg)\<lparr>method' := Some ''GET''\<rparr>) w"

definition post ::
  "ApiService \<Rightarrow> (thrown \<Rightarrow> string) \<Rightarrow> fetch_fn \<Rightarrow> (jsval \<Rightarrow> string) \<Rightarrow> string \<Rightarrow> jsval
     \<Rightarrow> RequestConfig option \<Rightarrow> world \<Rightarrow> jsval completion \<times> world" where
  "post svc getErrorMessage fetch stringify url data cfg w =
     makeRequest svc getErrorMessage fetch url
       ((spreadConfig cfg)\<lparr>method' := Some ''POST'', body := bodyOf stringify data\<rparr>) w"

definition put ::
  "ApiService \<Rightarrow> (thrown \<Rightarrow> string) \<Rightarrow> fetch_fn \<Rightarrow> (jsval \<Rightarrow> string) \<Rightarrow> string \<Rightarrow> jsval
     \<Rightarrow> RequestConfig option \<Rightarrow> world \<Rightarrow> jsval completion \<times> world" where
  "put svc getErrorMessage fetch stringify url data cfg w =
     makeRequest svc getErrorMessage fetch url
       ((spreadConfig cfg)\<lparr>method' := Some ''PUT'', body := bodyOf stringify data\<rparr>) w"

definition patch ::
  "ApiService \<Rightarrow> (thrown \<Rightarrow> string) \<Rightarrow> fetch_fn \<Rightarrow> (jsval \<Rightarrow> string) \<Rightarrow> string \<Rightarrow> jsval
     \<Rightarrow> RequestConfig option \<Rightarrow> world \<Rightarrow> jsval completion \<times> world" where
  "patch svc getErrorMessage fetch stringify url data cfg w =
     makeRequest svc getErrorMessage fetch url
       ((spreadConfig cfg)\<lparr>method' := Some ''PATCH'', body := bodyOf stringify data\<rparr>) w"

definition delete ::
  "ApiService \<Rightarrow> (thrown \<Rightarrow> string) \<Rightarrow> fetch_fn \<Rightarrow> string \<Rightarrow> RequestConfig option \<Rightarrow> world
     \<Rightarrow> jsval completion \<times> world" where
  "delete svc getErrorMessage fetch url cfg w =
     makeRequest svc getErrorMessage fetch url ((spreadConfig cfg)\<lparr>method' := Some ''DELETE''\<rparr>) w"

section \<open>Environment configuration\<close>

text \<open>
  The configuration module: \<^verbatim>\<open>import.meta.env\<close> is a map from variable names to strings,
  a missing variable reads as \<^verbatim>\<open>undefined\<close>.
\<close>

record EnvConfig =
  APP_NAME :: string
  APP_VERSION :: string
  APP_DESCRIPTION :: string
  NODE_ENV :: string
  API_BASE_URL :: string
  API_TIMEOUT :: jsnumber
  ENABLE_ANALYTICS :: bool
  ENABLE_DEBUG :: bool

definition getEnvVar :: "(string \<rightharpoonup> string) \<Rightarrow> string \<Rightarrow> string option \<Rightarrow> thrown + string" where
  "getEnvVar metaEnv key defaultValue =
     (let value = (case metaEnv key of
                     None \<Rightarrow> defaultValue
                   | Some v \<Rightarrow> if v = [] then defaultValue else Some v)
      in case value of
           None \<Rightarrow>
             Inl (JsError ''Error'' (''Environment variable '' @ key @ '' is required but not set''))
         | Some v \<Rightarrow>
             if v = []
             then Inl (JsError ''Error''
                        (''Environment variable '' @ key @ '' is required but not set''))
             else Inr v)"

definition getBooleanEnvVar :: "(string \<rightharpoonup> string) \<Rightarrow> string \<Rightarrow> bool \<Rightarrow> bool" where
  "getBooleanEnvVar metaEnv key defaultValue =
     (case metaEnv key of
        None \<Rightarrow> defaultValue
      | Some value \<Rightarrow> value = ''true'' \<or> value = ''1'')"

text \<open>
  The white space and the line terminators of the language, which \<^verbatim>\<open>parseInt\<close> skips at the
  start of its input, in UTF-8: tab, line feed, vertical tab, form feed, carriage return,
  space, U+00A0, U+1680, U+2000 to U+200A, U+2028, U+2029, U+202F, U+205F, U+3000 and
  U+FEFF.
\<close>

definition whiteSpaceCodes :: "string list" where
  "whiteSpaceCodes =
     [[CHR 0x09], [CHR 0x0A], [CHR 0x0B], [CHR 0x0C], [CHR 0x0D], [CHR 0x20],
      [CHR 0xC2, CHR 0xA0],
      [CHR 0xE1, CHR 0x9A, CHR 0x80],
      [CHR 0xE2, CHR 0x80, CHR 0x80], [CHR 0xE2, CHR 0x80, CHR 0x81],
      [CHR 0xE2, CHR 0x80, CHR 0x82], [CHR 0xE2, CHR 0x80, CHR 0x83],
      [CHR 0xE2, CHR 0x80, CHR 0x84], [CHR 0xE2, CHR 0x80, CHR 0x85],
      [CHR 0xE2, CHR 0x80, CHR 0x86], [CHR 0xE2, CHR 0x80, CHR 0x87],
      [CHR 0xE2, CHR 0x80, CHR 0x88], [CHR 0xE2, CHR 0x80, CHR 0x89],
      [CHR 0xE2, CHR 0x80, CHR 0x8A],
      [CHR 0xE2, CHR 0x80, CHR 0xA8], [CHR 0xE2, CHR 0x80, CHR 0xA9],
      [CHR 0xE2, CHR 0x80, CHR 0xAF],
      [CHR 0xE2, CHR 0x81, CHR 0x9F],
      [CHR 0xE3, CHR 0x80, CHR 0x80],
      [CHR 0xEF, CHR 0xBB, CHR 0xBF]]"

text \<open>One white-space character at the start of a string, if there is one.\<close>

definition leadingWhiteSpace :: "string \<Rightarrow> string option" where
  "leadingWhiteSpace s = find (\<lambda>ws. prefix ws s) whiteSpaceCodes"

text \<open>\<^verbatim>\<open>TrimString(s, start)\<close>: the leading white space is dropped.\<close>

function trimStart :: "string \<Rightarrow> string" where
  "trimStart s =
     (case leadingWhiteSpace s of
        None \<Rightarrow> s
      | Some ws \<Rightarrow> trimStart (drop (length ws) s))"
  by pat_completeness auto
termination
proof (relation "measure length")
  show "wf (measure length)" by simp
next
  fix s ws :: string
  assume "leadingWhiteSpace s = Some ws"
  then have "ws \<in> set whiteSpaceCodes" and pre: "prefix ws s"
    by (auto simp add: leadingWhiteSpace_def find_Some_iff)
  then have "ws \<noteq> []"
    by (auto simp add: whiteSpaceCodes_def)
  with pre show "(drop (length ws) s, s) \<in> measure length"
    by (auto simp add: prefix_def)
qed

declare trimStart.simps [simp del]

text \<open>
  The number value of a non-negative integer: the nearest double, ties to the even
  significand, and infinity (\<open>None\<close>) from \<open>2 ^ 1024\<close> on.
\<close>

function bitlen :: "int \<Rightarrow> nat" where
  "bitlen n = (if n \<le> 0 then 0 else Suc (bitlen (n div 2)))"
  by pat_completeness auto
termination
  by (relation "measure nat") auto

declare bitlen.simps [simp del]

definition toDouble :: "int \<Rightarrow> int option" where
  "toDouble n =
     (if n < 2 ^ 53 then Some n
      else (let e = bitlen n - 53;
                q = n div 2 ^ e;
                r = n mod 2 ^ e;
                q' = (if 2 ^ (e - 1) < r \<or> (r = 2 ^ (e - 1) \<and> odd q) then q + 1 else q)
            in if 2 ^ 1024 \<le> q' * 2 ^ e then None else Some (q' * 2 ^ e)))"

text \<open>
  \<^verbatim>\<open>parseInt(s, 10)\<close>: leading white space is skipped, then an optional sign, then the longest
  run of decimal digits; whatever follows is ignored. With no digit the result is \<^verbatim>\<open>NaN\<close>;
  otherwise it is the number value of the integer the digits spell (read exactly; the
  standard lets an engine read the digits after the twentieth as zeros).
\<close>

definition isDigit :: "char \<Rightarrow> bool" where
  "isDigit c = (c \<in> set ''0123456789'')"

definition digitValue :: "char \<Rightarrow> int" where
  "digitValue c = of_char c - 48"

definition digitsValue :: "string \<Rightarrow> int" where
  "digitsValue ds = foldl (\<lambda>acc c. 10 * acc + digitValue c) 0 ds"

text \<open>The digits \<^verbatim>\<open>parseInt\<close> reads: those after the white space and the sign.\<close>

definition numericPrefix :: "string \<Rightarrow> string" where
  "numericPrefix s =
     (let s1 = trimStart s;
          s2 = (if s1 \<noteq> [] \<and> (hd s1 = CHR ''-'' \<or> hd s1 = CHR ''+'') then tl s1 else s1)
      in takeWhile isDigit s2)"

definition parseInt :: "string \<Rightarrow> jsnumber" where
  "parseInt s =
     (let s1 = trimStart s;
          negative = (s1 \<noteq> [] \<and> hd s1 = CHR ''-'');
          ds = numericPrefix s
      in if ds = [] then NaN
         else (case toDouble (digitsValue ds) of
                 None \<Rightarrow> if negative then NegInfinity else PosInfinity
               | Some v \<Rightarrow> Num (if negative then - v else v)))"

definition getNumberEnvVar ::
  "(string \<rightharpoonup> string) \<Rightarrow> string \<Rightarrow> jsnumber option \<Rightarrow> thrown + jsnumber" where
  "getNumberEnvVar metaEnv key defaultValue =
     (let value = metaEnv key
      in if value = None \<and> defaultValue \<noteq> None then Inr (the defaultValue)
         else (let parsed = parseInt (str_or value ''0'')
               in if parsed = NaN
                  then Inl (JsError ''Error''
                             (''Environment variable '' @ key @ '' must be a valid number''))
                  else Inr parsed))"

text \<open>The object \<^verbatim>\<open>env\<close>, built field by field when the module loads.\<close>

definition env :: "(string \<rightharpoonup> string) \<Rightarrow> thrown + EnvConfig" where
  "env metaEnv =
     (case getEnvVar metaEnv ''VITE_APP_NAME'' (Some ''Kurama'') of
        Inl e \<Rightarrow> Inl e
      | Inr appName \<Rightarrow>
     (case getEnvVar metaEnv ''VITE_APP_VERSION'' (Some ''1.0.0'') of
        Inl e \<Rightarrow> Inl e
      | Inr appVersion \<Rightarrow>
     (case getEnvVar metaEnv ''VITE_APP_DESCRIPTION'' (Some ''Enterprise React Application'') of
        Inl e \<Rightarrow> Inl e
      | Inr appDescription \<Rightarrow>
     (case getEnvVar metaEnv ''VITE_NODE_ENV'' (Some ''development'') of
        Inl e \<Rightarrow> Inl e
      | Inr nodeEnv \<Rightarrow>
     (case getEnvVar metaEnv ''VITE_API_BASE_URL'' (Some ''http://localhost:8000/api'') of
        Inl e \<Rightarrow> Inl e
      | Inr apiBaseUrl \<Rightarrow>
     (case getNumberEnvVar metaEnv ''VITE_API_TIMEOUT'' (Some (Num 10000)) of
        Inl e \<Rightarrow> Inl e
      | Inr apiTimeout \<Rightarrow>
          Inr \<lparr>APP_NAME = appName, APP_VERSION = appVersion, APP_DESCRIPTION = appDescription,
               NODE_ENV = nodeEnv, API_BASE_URL = apiBaseUrl, API_TIMEOUT = apiTimeout,
               ENABLE_ANALYTICS = getBooleanEnvVar metaEnv ''VITE_ENABLE_ANALYTICS'' False,
               ENABLE_DEBUG = getBooleanEnvVar metaEnv ''VITE_ENABLE_DEBUG'' True\<rparr>))))))"

section \<open>The default client\<close>

definition defaultConfig :: "EnvConfig \<Rightarrow> ApiConfig" where
  "defaultConfig e =
     \<lparr>ApiConfig.baseURL = API_BASE_URL e, ApiConfig.timeout = API_TIMEOUT e,
      ApiConfig.headers = [''Content-Type'' \<mapsto> ''application/json'']\<rparr>"

text \<open>
  \<^verbatim>\<open>new ApiService(config)\<close> with a partial configuration: \<^verbatim>\<open>{...defaultConfig, ...config}\<close>.
\<close>

definition newApiService ::
  "EnvConfig \<Rightarrow> string option \<Rightarrow> jsnumber option \<Rightarrow> (string \<rightharpoonup> string) option
     \<Rightarrow> ApiService" where
  "newApiService e baseURL' timeout' headers' =
     \<lparr>config =
        \<lparr>ApiConfig.baseURL =
           (case baseURL' of None \<Rightarrow> ApiConfig.baseURL (defaultConfig e) | Some b \<Rightarrow> b),
         ApiConfig.timeout =
           (case timeout' of None \<Rightarrow> ApiConfig.timeout (defaultConfig e) | Some t \<Rightarrow> t),
         ApiConfig.headers =
           (case headers' of None \<Rightarrow> ApiConfig.headers (defaultConfig e) | Some h \<Rightarrow> h)\<rparr>,
      requestInterceptors = [], responseInterceptors = [], errorInterceptors = []\<rparr>"

text \<open>
  The request interceptor registered on \<^verbatim>\<open>apiClient\<close>: with a token stored, the headers
  become \<^verbatim>\<open>{...config.headers, Authorization: `Bearer ${token}`}\<close>.
\<close>

definition authRequestInterceptor :: RequestInterceptor where
  "authRequestInterceptor cfg w =
     (case localStorage w ''auth_token'' of
        None \<Rightarrow> (Resolved cfg, w)
      | Some token \<Rightarrow>
          if token = [] then (Resolved cfg, w)
          else (Resolved
                  (cfg\<lparr>RequestConfig.headers :=
                         Some (HeadersRecord
                                 ((spreadHeaders (RequestConfig.headers cfg))
                                    (''Authorization'' \<mapsto> HeaderText (''Bearer '' @ token))))\<rparr>),
                w))"

text \<open>The response interceptor registered on \<^verbatim>\<open>apiClient\<close>: the envelope is unwrapped.\<close>

definition unwrapResponseInterceptor :: ResponseInterceptor where
  "unwrapResponseInterceptor response w =
     (if truthy response \<and> typeof response = ''object'' \<and> dataIn response
      then (case getProp response ''data'' of
              Inl e \<Rightarrow> (Rejected e, w)
            | Inr v \<Rightarrow> (Resolved v, w))
      else (Resolved response, w))"

text \<open>
  The error interceptor registered on \<^verbatim>\<open>apiClient\<close>; its first argument is
  \<^verbatim>\<open>env.ENABLE_DEBUG\<close>, and \<^verbatim>\<open>console.error\<close> appends to the diagnostic log.
\<close>

definition unauthorizedErrorInterceptor :: "bool \<Rightarrow> ErrorInterceptor" where
  "unauthorizedErrorInterceptor enableDebug error w =
     (let w1 = (if ApiClientError.status error = 401
                then w\<lparr>localStorage :=
                         (localStorage w)(''auth_token'' := None, ''refresh_token'' := None),
                       location_href := ''/login''\<rparr>
                else w);
          w2 = (if enableDebug then w1\<lparr>console_errors := console_errors w1 @ [error]\<rparr> else w1)
      in (Rejected (ApiErr error), w2))"

definition apiClient :: "EnvConfig \<Rightarrow> ApiService" where
  "apiClient e =
     addErrorInterceptor (unauthorizedErrorInterceptor (ENABLE_DEBUG e))
       (addResponseInterceptor unwrapResponseInterceptor
         (addRequestInterceptor authRequestInterceptor
           (newApiService e None None None)))"

section \<open>Notions of the specification\<close>

text \<open>
  A base and a path joined with exactly one slash between them, whatever slashes end the
  base or start the path: all of them are dropped on both sides.
\<close>

definition withoutTrailingSlashes :: "string \<Rightarrow> string" where
  "withoutTrailingSlashes s = rev (dropWhile (\<lambda>c. c = CHR ''/'') (rev s))"

definition withoutLeadingSlashes :: "string \<Rightarrow> string" where
  "withoutLeadingSlashes s = dropWhile (\<lambda>c. c = CHR ''/'') s"

definition joinedWithOneSlash :: "string \<Rightarrow> string \<Rightarrow> string" where
  "joinedWithOneSlash base path = withoutTrailingSlashes base @ ''/'' @ withoutLeadingSlashes path"

section \<open>Concrete clients, worlds and servers\<close>

text \<open>
  Modelled from the spec: \<^verbatim>\<open>getErrorMessage\<close> is imported from \<^verbatim>\<open>@/utils\<close>, which is not among
  the sources, and the spec does not describe it. The theorems take it as a parameter;
  this instance, for concrete calls, is the function its test
  (\<^verbatim>\<open>src/utils/__tests__/index.test.ts\<close>) pins down: the message of an error object, a
  thrown string itself, and a fixed text for anything else.
\<close>

fun getErrorMessage :: "thrown \<Rightarrow> string" where
  "getErrorMessage (JsError name msg) = msg"
| "getErrorMessage (ThrownValue (JStr s)) = s"
| "getErrorMessage (ApiErr e) = (case message e of JStr s \<Rightarrow> s | _ \<Rightarrow> ''An unknown error occurred'')"
| "getErrorMessage (ThrownValue _) = ''An unknown error occurred''"

text \<open>The configuration with every variable unset, and a browser with nothing stored.\<close>

definition devEnv :: EnvConfig where
  "devEnv =
     \<lparr>APP_NAME = ''Kurama'', APP_VERSION = ''1.0.0'',
      APP_DESCRIPTION = ''Enterprise React Application'', NODE_ENV = ''development'',
      API_BASE_URL = ''http://localhost:8000/api'', API_TIMEOUT = Num 10000,
      ENABLE_ANALYTICS = False, ENABLE_DEBUG = True\<rparr>"

definition freshWorld :: world where
  "freshWorld =
     \<lparr>localStorage = Map.empty, location_href = ''/'', console_errors = [], network_log = []\<rparr>"

definition signedInWorld :: world where
  "signedInWorld =
     \<lparr>localStorage = [''auth_token'' \<mapsto> ''t0k3n'', ''refresh_token'' \<mapsto> ''r3fr3sh'',
                      ''theme'' \<mapsto> ''dark''],
      location_href = ''/dashboard'', console_errors = [], network_log = []\<rparr>"

definition hostApi :: ApiConfig where
  "hostApi =
     \<lparr>ApiConfig.baseURL = ''http://host/api/'', ApiConfig.timeout = Num 10000,
      ApiConfig.headers = Map.empty\<rparr>"

text \<open>The descriptor the default client hands to \<^verbatim>\<open>fetch\<close> when no token is stored.\<close>

definition jsonRequest :: RequestConfig where
  "jsonRequest =
     \<lparr>method' = None,
      headers = Some (HeadersRecord [''Content-Type'' \<mapsto> HeaderText ''application/json'']),
      body = None, timeout = None, baseURL = None\<rparr>"

definition serverError :: ApiClientError where
  "serverError =
     \<lparr>message = JStr ''boom'', ApiClientError.status = 500, code = JStr ''E_BOOM'',
      details = JUndefined\<rparr>"

definition unauthorizedError :: ApiClientError where
  "unauthorizedError =
     \<lparr>message = JStr ''HTTP 401: Unauthorized'', ApiClientError.status = 401,
      code = JStr ''HTTP_ERROR'', details = JUndefined\<rparr>"

text \<open>Servers: one answers every request after 5 ms, one never answers, one is unreachable.\<close>

definition answering :: "Response \<Rightarrow> fetch_fn" where
  "answering response url cfg = Settles 5 (FetchResponse response)"


definition unreachable :: fetch_fn where
  "unreachable url cfg = Settles 5 (FetchFailure (JsError ''TypeError'' ''Failed to fetch''))"

definition nullBodyResponse :: Response where
  "nullBodyResponse =
     \<lparr>Response.status = 500, statusText = ''Internal Server Error'', json = Resolved JNull\<rparr>"

definition notFoundResponse :: Response where
  "notFoundResponse =
     \<lparr>Response.status = 404, statusText = ''Not Found'',
      json = Rejected (JsError ''SyntaxError'' ''Unexpected end of JSON input'')\<rparr>"

definition noContentResponse :: Response where
  "noContentResponse =
     \<lparr>Response.status = 204, statusText = ''No Content'',
      json = Rejected (JsError ''SyntaxError'' ''Unexpected end of JSON input'')\<rparr>"

definition usersResponse :: Response where
  "usersResponse =
     \<lparr>Response.status = 200, statusText = ''OK'',
      json = Resolved (JObj [(''data'', JArr [JObj [(''id'', JStr ''1'')]]),
                             (''success'', JBool True)])\<rparr>"

text \<open>Interceptors a host application may register besides the default ones.\<close>

definition failingResponseInterceptor :: ResponseInterceptor where
  "failingResponseInterceptor response w = (Rejected (JsError ''Error'' ''unexpected shape''), w)"

definition replacingErrorInterceptor :: ErrorInterceptor where
  "replacingErrorInterceptor error w = (Rejected (JsError ''Error'' ''handled elsewhere''), w)"

definition redirectingErrorInterceptor :: ErrorInterceptor where
  "redirectingErrorInterceptor error w = (Rejected (ApiErr error), w\<lparr>location_href := ''/error''\<rparr>)"


definition failingRequestInterceptor :: RequestInterceptor where
  "failingRequestInterceptor cfg w = (Rejected (ThrownValue (JStr ''offline'')), w)"

section \<open>Facts about the default client and the chains\<close>

lemma apiClient_fields:
  "config (apiClient e) = defaultConfig e"
  "requestInterceptors (apiClient e) = [authRequestInterceptor]"
  "responseInterceptors (apiClient e) = [unwrapResponseInterceptor]"
  "errorInterceptors (apiClient e) = [unauthorizedErrorInterceptor (ENABLE_DEBUG e)]"
  by (simp_all add: apiClient_def addErrorInterceptor_def addResponseInterceptor_def
      addRequestInterceptor_def newApiService_def)

lemma spreadRecord_empty [simp]: "spreadRecord Map.empty = Map.empty"
  by (simp add: spreadRecord_def)

lemma spreadRecord_upd [simp]:
  "spreadRecord (r(key \<mapsto> v)) = (spreadRecord r)(key \<mapsto> HeaderText v)"
  by (auto simp add: spreadRecord_def)

lemmas concrete_call =
  makeRequest_def mergedConfig_def afterFetch_def apiClient_fields authRequestInterceptor_def
  freshWorld_def emptyRequestConfig_def defaultConfig_def devEnv_def buildUrl_def str_or_def
  num_or_def awaitFetch_def settlesWithin_def timerDelay_def ok_def catchBlock_def
  networkError_def unauthorizedErrorInterceptor_def unwrapResponseInterceptor_def
  replaceTrailingSlash_def issued_def aborted_def Let_def jsonRequest_def


lemma applyErrorInterceptors_rejects:
  "\<exists>x w'. applyErrorInterceptors chain error w = (Rejected x, w')"
proof (induction chain arbitrary: w)
  case Nil
  show ?case by simp
next
  case (Cons i rest)
  obtain r w1 where step: "i error w = (r, w1)" by (cases "i error w")
  show ?case
  proof (cases r)
    case (Resolved u)
    with step Cons.IH [of w1] show ?thesis by simp
  next
    case (Rejected x)
    with step show ?thesis by simp
  qed
qed

lemma applyErrorInterceptors_reraises:
  assumes "\<forall>i \<in> set chain. \<forall>w.
             fst (i error w) = Resolved () \<or> fst (i error w) = Rejected (ApiErr error)"
  shows "fst (applyErrorInterceptors chain error w) = Rejected (ApiErr error)"
  using assms
proof (induction chain arbitrary: w)
  case Nil
  show ?case by simp
next
  case (Cons i rest)
  obtain r w1 where step: "i error w = (r, w1)" by (cases "i error w")
  from Cons.prems
  have "fst (i error w) = Resolved () \<or> fst (i error w) = Rejected (ApiErr error)"
    by simp
  with step have "r = Resolved () \<or> r = Rejected (ApiErr error)" by simp
  then show ?case
  proof
    assume "r = Resolved ()"
    with step Cons show ?thesis by simp
  next
    assume "r = Rejected (ApiErr error)"
    with step show ?thesis by simp
  qed
qed


lemma applyRequestInterceptors_preserves_body:
  assumes "\<forall>i \<in> set chain. \<forall>c w c' w'. i c w = (Resolved c', w') \<longrightarrow> body c' = body c"
    and "applyRequestInterceptors chain c w = (Resolved finalConfig, w1)"
  shows "body finalConfig = body c"
  using assms
proof (induction chain arbitrary: c w)
  case Nil
  then show ?case by simp
next
  case (Cons i rest)
  obtain r w2 where step: "i c w = (r, w2)" by (cases "i c w")
  show ?case
  proof (cases r)
    case (Resolved c2)
    from Cons.prems(1) step Resolved have keep: "body c2 = body c" by auto
    from Cons.prems(2) step Resolved
    have "applyRequestInterceptors rest c2 w2 = (Resolved finalConfig, w1)" by simp
    with Cons.IH [of c2 w2] Cons.prems(1) have "body finalConfig = body c2" by simp
    with keep show ?thesis by simp
  next
    case (Rejected x)
    with Cons.prems(2) step show ?thesis by simp
  qed
qed

lemma authRequestInterceptor_body:
  "authRequestInterceptor c w = (Resolved c', w') \<Longrightarrow> body c' = body c"
  by (auto simp add: authRequestInterceptor_def split: option.splits if_splits)

lemma truthy_iff: "truthy data \<longleftrightarrow> data \<notin> {JUndefined, JNull, JNum 0, JBool False, JStr []}"
  by (cases data) auto

lemma replaceLeadingSlash_single:
  assumes "\<not> prefix ''//'' s"
  shows "replaceLeadingSlash s = withoutLeadingSlashes s"
proof (cases s)
  case Nil
  then show ?thesis by (simp add: withoutLeadingSlashes_def)
next
  case (Cons c cs)
  show ?thesis
  proof (cases "c = CHR ''/''")
    case True
    with assms Cons have "cs = [] \<or> hd cs \<noteq> CHR ''/''"
      by (cases cs) auto
    then have "dropWhile (\<lambda>c. c = CHR ''/'') cs = cs"
      by (cases cs) auto
    with True Cons show ?thesis by (simp add: withoutLeadingSlashes_def)
  next
    case False
    with Cons show ?thesis by (simp add: withoutLeadingSlashes_def)
  qed
qed

lemma replaceTrailingSlash_rev:
  "replaceTrailingSlash s = rev (replaceLeadingSlash (rev s))"
  by (cases s rule: rev_cases) (simp_all add: replaceTrailingSlash_def)

lemma replaceTrailingSlash_single:
  assumes "\<not> suffix ''//'' s"
  shows "replaceTrailingSlash s = withoutTrailingSlashes s"
proof -
  have "\<not> prefix ''//'' (rev s)"
    using assms by (simp add: suffix_to_prefix)
  then have "replaceLeadingSlash (rev s) = withoutLeadingSlashes (rev s)"
    by (rule replaceLeadingSlash_single)
  then show ?thesis
    by (simp add: replaceTrailingSlash_rev withoutTrailingSlashes_def withoutLeadingSlashes_def)
qed

lemma httpError_status:
  assumes "httpError response errorData = Inr apiError"
  shows "ApiClientError.status apiError = Response.status response"
  using assms by (auto simp add: httpError_def split: sum.splits)

lemma httpError_defined:
  assumes "errorData \<noteq> JNull" and "errorData \<noteq> JUndefined"
  shows "\<exists>apiError. httpError response errorData = Inr apiError"
  using assms by (cases errorData) (simp_all add: httpError_def)

lemma httpError_empty_body:
  "httpError response (JObj []) =
     Inr \<lparr>message = JStr (''HTTP '' @ show_nat (Response.status response) @ '': '' @
                          statusText response),
          ApiClientError.status = Response.status response,
          code = JStr ''HTTP_ERROR'', details = JUndefined\<rparr>"
  by (simp add: httpError_def js_or_def)

section \<open>Non-success responses\<close>

text \<open>
  Claim C1. For every response with a non-success status the call should raise an
  \<^verbatim>\<open>ApiClientError\<close> whose status is the server's status code. A server that answers 500
  with the JSON body \<^verbatim>\<open>null\<close> breaks this: the body decodes (so the fallback \<^verbatim>\<open>{}\<close> is not
  used), reading \<^verbatim>\<open>errorData.message\<close> throws a \<^verbatim>\<open>TypeError\<close> inside the \<^verbatim>\<open>try\<close>, and the
  \<^verbatim>\<open>catch\<close> block wraps it: the caller of the default client sees status 0 and the code
  \<^verbatim>\<open>NETWORK_ERROR\<close>, not status 500.
\<close>

theorem makeRequest_null_error_body:
  "makeRequest (apiClient devEnv) getErrorMessage (answering nullBodyResponse) ''/users''
          emptyRequestConfig freshWorld =
     (Rejected (ApiErr (networkError getErrorMessage (nullPropertyError ''null'' ''message''))),
      freshWorld\<lparr>console_errors := [networkError getErrorMessage (nullPropertyError ''null'' ''message'')],
         network_log := [FetchIssued ''http://localhost:8000/api/users'' jsonRequest]\<rparr>) \<and>
   ApiClientError.status (networkError getErrorMessage (nullPropertyError ''null'' ''message'')) = 0 \<and>
   Response.status nullBodyResponse = 500 \<and> \<not> ok nullBodyResponse"
  by (simp add: concrete_call answering_def nullBodyResponse_def
      httpErrorBranch_def httpError_def nullPropertyError_def)

text \<open>
  For every other body the branch does what the claim says: the error that enters the
  chain carries the server's status, and an undecodable body gives the generic message and
  code, as for the 404 below.
\<close>

lemma makeRequest_http_error:
  assumes "applyRequestInterceptors (requestInterceptors svc)
             (mergedConfig svc cfg) w =
           (Resolved finalConfig, w1)"
    and "awaitFetch
           (fetch (buildUrl (config svc) url (RequestConfig.baseURL finalConfig)) finalConfig)
           (num_or (RequestConfig.timeout finalConfig) (ApiConfig.timeout (config svc))) =
         Some (FetchResponse response)"
    and "\<not> ok response"
    and "httpError response
           (case Response.json response of Resolved v \<Rightarrow> v | Rejected e \<Rightarrow> JObj []) =
         Inr apiError"
  shows "makeRequest svc g fetch url cfg w =
           applyErrorInterceptors (errorInterceptors svc) apiError
             (issued (buildUrl (config svc) url (RequestConfig.baseURL finalConfig))
                finalConfig w1) \<and>
         ApiClientError.status apiError = Response.status response"
  using assms httpError_status [of response _ apiError]
  by (simp add: makeRequest_def afterFetch_def httpErrorBranch_def Let_def)

lemma makeRequest_not_found:
  "fst (makeRequest (apiClient devEnv) getErrorMessage (answering notFoundResponse) ''/users''
          emptyRequestConfig freshWorld) =
     Rejected (ApiErr \<lparr>message = JStr ''HTTP 404: Not Found'', ApiClientError.status = 404,
                       code = JStr ''HTTP_ERROR'', details = JUndefined\<rparr>)"
  by (simp add: concrete_call answering_def notFoundResponse_def httpErrorBranch_def
      httpError_def js_or_def show_nat.simps)

section \<open>URL resolution\<close>

text \<open>
  Claim C2, as amended. A path that starts with \<^verbatim>\<open>http\<close> is used verbatim, whatever the
  base. Otherwise the effective base (the call's override when it is a non-empty string,
  else the client's) loses one trailing slash, the path loses one leading slash, and a
  slash joins them. When the base does not end with two slashes and the path does not
  start with two, that is the base and the path with exactly one slash between them.
\<close>

theorem buildUrl_resolution:
  "(prefix ''http'' url \<longrightarrow> buildUrl cfg url override = url) \<and>
   (\<not> prefix ''http'' url \<longrightarrow>
      buildUrl cfg url override =
        replaceTrailingSlash (str_or override (ApiConfig.baseURL cfg)) @ ''/'' @
        replaceLeadingSlash url) \<and>
   (\<not> prefix ''http'' url \<and> \<not> suffix ''//'' (str_or override (ApiConfig.baseURL cfg)) \<and>
    \<not> prefix ''//'' url \<longrightarrow>
      buildUrl cfg url override =
        joinedWithOneSlash (str_or override (ApiConfig.baseURL cfg)) url)"
  by (simp add: buildUrl_def joinedWithOneSlash_def replaceTrailingSlash_single
      replaceLeadingSlash_single)

theorem buildUrl_resolution_witness:
  "prefix ''http'' ''https://cdn/logo.png'' \<and>
   buildUrl hostApi ''https://cdn/logo.png'' None = ''https://cdn/logo.png'' \<and>
   \<not> prefix ''http'' ''/users'' \<and> \<not> suffix ''//'' ''http://host/api/'' \<and>
   \<not> prefix ''//'' ''/users'' \<and>
   buildUrl hostApi ''/users'' None = ''http://host/api/users'' \<and>
   buildUrl hostApi ''users'' (Some ''http://other/v2'') = ''http://other/v2/users''"
  using buildUrl_resolution [of "''https://cdn/logo.png''" hostApi None]
    buildUrl_resolution [of "''/users''" hostApi None]
    buildUrl_resolution [of "''users''" hostApi "Some ''http://other/v2''"]
  by (simp add: hostApi_def str_or_def joinedWithOneSlash_def withoutTrailingSlashes_def
      withoutLeadingSlashes_def suffix_def replaceTrailingSlash_def)

text \<open>
  With the base \<^verbatim>\<open>http://host/api/\<close> of the claim's own example and the path \<^verbatim>\<open>//users\<close>, two
  slashes separate base and path, where the claim promises one.
\<close>

theorem buildUrl_double_slash_counterexample:
  "buildUrl hostApi ''//users'' None = ''http://host/api//users'' \<and>
   joinedWithOneSlash ''http://host/api/'' ''//users'' = ''http://host/api/users''"
  by (simp add: buildUrl_def hostApi_def str_or_def replaceTrailingSlash_def
      joinedWithOneSlash_def withoutTrailingSlashes_def withoutLeadingSlashes_def)

section \<open>Timeouts\<close>




section \<open>Failures outside the HTTP-status branch\<close>

text \<open>
  Claim C4, as amended. An exception raised by a request interceptor, by the fetch, or by
  the decoding of a success body is caught: when it is not an \<^verbatim>\<open>ApiClientError\<close> it is wrapped
  into one with status 0 and the code \<^verbatim>\<open>NETWORK_ERROR\<close>, which goes into the
  error-interceptor chain, whose outcome is the call's; when it is an \<^verbatim>\<open>ApiClientError\<close> it
  is re-raised unchanged, without the chain.
\<close>

theorem makeRequest_wraps_awaited_failures:
  "(applyRequestInterceptors (requestInterceptors svc)
      (mergedConfig svc cfg) w =
      (Rejected e, w1) \<longrightarrow>
    makeRequest svc g fetch url cfg w =
      (if instanceofApiClientError e then (Rejected e, w1)
       else applyErrorInterceptors (errorInterceptors svc) (networkError g e) w1)) \<and>
   (applyRequestInterceptors (requestInterceptors svc)
      (mergedConfig svc cfg) w =
      (Resolved finalConfig, w1) \<and>
    awaitFetch
      (fetch (buildUrl (config svc) url (RequestConfig.baseURL finalConfig)) finalConfig)
      (num_or (RequestConfig.timeout finalConfig) (ApiConfig.timeout (config svc))) =
      Some (FetchFailure e) \<longrightarrow>
    makeRequest svc g fetch url cfg w =
      (if instanceofApiClientError e
       then (Rejected e,
             issued (buildUrl (config svc) url (RequestConfig.baseURL finalConfig)) finalConfig w1)
       else applyErrorInterceptors (errorInterceptors svc) (networkError g e)
              (issued (buildUrl (config svc) url (RequestConfig.baseURL finalConfig))
                 finalConfig w1))) \<and>
   (applyRequestInterceptors (requestInterceptors svc)
      (mergedConfig svc cfg) w =
      (Resolved finalConfig, w1) \<and>
    awaitFetch
      (fetch (buildUrl (config svc) url (RequestConfig.baseURL finalConfig)) finalConfig)
      (num_or (RequestConfig.timeout finalConfig) (ApiConfig.timeout (config svc))) =
      Some (FetchResponse response) \<and>
    ok response \<and> Response.json response = Rejected e \<longrightarrow>
    makeRequest svc g fetch url cfg w =
      (if instanceofApiClientError e
       then (Rejected e,
             issued (buildUrl (config svc) url (RequestConfig.baseURL finalConfig)) finalConfig w1)
       else applyErrorInterceptors (errorInterceptors svc) (networkError g e)
              (issued (buildUrl (config svc) url (RequestConfig.baseURL finalConfig))
                 finalConfig w1))) \<and>
   ApiClientError.status (networkError g e) = 0 \<and>
   code (networkError g e) = JStr ''NETWORK_ERROR''"
  by (simp add: makeRequest_def afterFetch_def Let_def catchBlock_def networkError_def)

theorem makeRequest_wraps_awaited_failures_witness:
  "fst (makeRequest (addRequestInterceptor failingRequestInterceptor (apiClient devEnv))
          getErrorMessage (answering usersResponse) ''/users'' emptyRequestConfig freshWorld) =
     Rejected (ApiErr \<lparr>message = JStr ''offline'', ApiClientError.status = 0,
                       code = JStr ''NETWORK_ERROR'', details = JUndefined\<rparr>) \<and>
   fst (makeRequest (apiClient devEnv) getErrorMessage unreachable ''/users''
          emptyRequestConfig freshWorld) =
     Rejected (ApiErr \<lparr>message = JStr ''Failed to fetch'', ApiClientError.status = 0,
                       code = JStr ''NETWORK_ERROR'', details = JUndefined\<rparr>) \<and>
   fst (makeRequest (apiClient devEnv) getErrorMessage (answering noContentResponse) ''/users''
          emptyRequestConfig freshWorld) =
     Rejected (ApiErr \<lparr>message = JStr ''Unexpected end of JSON input'',
                       ApiClientError.status = 0, code = JStr ''NETWORK_ERROR'',
                       details = JUndefined\<rparr>)"
proof (intro conjI)
  have chain1: "applyRequestInterceptors
      (requestInterceptors (addRequestInterceptor failingRequestInterceptor (apiClient devEnv)))
      (mergedConfig (addRequestInterceptor failingRequestInterceptor (apiClient devEnv)) emptyRequestConfig) freshWorld =
      (Rejected (ThrownValue (JStr ''offline'')), freshWorld)"
    by (simp add: addRequestInterceptor_def apiClient_fields mergedConfig_def authRequestInterceptor_def
        failingRequestInterceptor_def freshWorld_def)
  from makeRequest_wraps_awaited_failures [where svc =
        "addRequestInterceptor failingRequestInterceptor (apiClient devEnv)"
      and g = getErrorMessage and fetch = "answering usersResponse" and url = "''/users''",
      THEN conjunct1, THEN mp, OF chain1]
  show "fst (makeRequest (addRequestInterceptor failingRequestInterceptor (apiClient devEnv))
          getErrorMessage (answering usersResponse) ''/users'' emptyRequestConfig freshWorld) =
     Rejected (ApiErr \<lparr>message = JStr ''offline'', ApiClientError.status = 0,
                       code = JStr ''NETWORK_ERROR'', details = JUndefined\<rparr>)"
    by (simp add: addRequestInterceptor_def apiClient_fields networkError_def
        unauthorizedErrorInterceptor_def Let_def)
next
  have chain: "applyRequestInterceptors (requestInterceptors (apiClient devEnv))
      (mergedConfig (apiClient devEnv) emptyRequestConfig) freshWorld =
      (Resolved jsonRequest, freshWorld)"
    by (simp add: apiClient_fields mergedConfig_def timerDelay_def authRequestInterceptor_def freshWorld_def
        emptyRequestConfig_def defaultConfig_def jsonRequest_def)
  have failed: "awaitFetch
      (unreachable (buildUrl (config (apiClient devEnv)) ''/users''
         (RequestConfig.baseURL jsonRequest)) jsonRequest)
      (num_or (RequestConfig.timeout jsonRequest) (ApiConfig.timeout (config (apiClient devEnv)))) =
      Some (FetchFailure (JsError ''TypeError'' ''Failed to fetch''))"
    by (simp add: unreachable_def awaitFetch_def settlesWithin_def timerDelay_def num_or_def jsonRequest_def
        apiClient_fields defaultConfig_def devEnv_def)
  from makeRequest_wraps_awaited_failures [where svc = "apiClient devEnv"
      and g = getErrorMessage and fetch = unreachable and url = "''/users''"
      and cfg = emptyRequestConfig and w = freshWorld,
      THEN conjunct2, THEN conjunct1, THEN mp, OF conjI, OF chain failed]
  show "fst (makeRequest (apiClient devEnv) getErrorMessage unreachable ''/users''
          emptyRequestConfig freshWorld) =
     Rejected (ApiErr \<lparr>message = JStr ''Failed to fetch'', ApiClientError.status = 0,
                       code = JStr ''NETWORK_ERROR'', details = JUndefined\<rparr>)"
    by (simp add: apiClient_fields networkError_def unauthorizedErrorInterceptor_def Let_def)
  have answered: "awaitFetch
      (answering noContentResponse (buildUrl (config (apiClient devEnv)) ''/users''
         (RequestConfig.baseURL jsonRequest)) jsonRequest)
      (num_or (RequestConfig.timeout jsonRequest) (ApiConfig.timeout (config (apiClient devEnv)))) =
      Some (FetchResponse noContentResponse)"
    by (simp add: answering_def awaitFetch_def settlesWithin_def timerDelay_def num_or_def jsonRequest_def
        apiClient_fields defaultConfig_def devEnv_def)
  have undecodable: "ok noContentResponse \<and>
      Response.json noContentResponse =
        Rejected (JsError ''SyntaxError'' ''Unexpected end of JSON input'')"
    by (simp add: noContentResponse_def ok_def)
  from makeRequest_wraps_awaited_failures [where svc = "apiClient devEnv"
      and g = getErrorMessage and fetch = "answering noContentResponse" and url = "''/users''"
      and cfg = emptyRequestConfig and w = freshWorld and response = noContentResponse,
      THEN conjunct2, THEN conjunct2, THEN conjunct1, THEN mp, OF conjI, OF chain conjI,
      OF answered undecodable]
  show "fst (makeRequest (apiClient devEnv) getErrorMessage (answering noContentResponse) ''/users''
          emptyRequestConfig freshWorld) =
     Rejected (ApiErr \<lparr>message = JStr ''Unexpected end of JSON input'',
                       ApiClientError.status = 0, code = JStr ''NETWORK_ERROR'',
                       details = JUndefined\<rparr>)"
    by (simp add: apiClient_fields networkError_def unauthorizedErrorInterceptor_def Let_def)
qed

text \<open>
  An exception thrown by a response interceptor is an exception raised during
  \<^verbatim>\<open>makeRequest\<close> outside the HTTP-status branch, and it reaches the caller as it is: not
  wrapped, and with no error interceptor run (nothing is logged, although debugging is
  on).
\<close>

theorem response_interceptor_failure_counterexample:
  "makeRequest (addResponseInterceptor failingResponseInterceptor (apiClient devEnv))
     getErrorMessage (answering usersResponse) ''/users'' emptyRequestConfig freshWorld =
   (Rejected (JsError ''Error'' ''unexpected shape''),
    freshWorld\<lparr>network_log := [FetchIssued ''http://localhost:8000/api/users'' jsonRequest]\<rparr>)"
  by (simp add: concrete_call addResponseInterceptor_def answering_def usersResponse_def
      failingResponseInterceptor_def)

section \<open>The error-interceptor chain\<close>

text \<open>
  Claim C5, as amended. A call that reaches the chain never resolves. The interceptors run
  in registration order up to the first that throws, and the call rejects with what that
  one threw; when none throws, the pipeline throws the error itself. So when every
  interceptor either returns or re-throws the error it was given, as the default one does,
  the caller gets that same error.
\<close>

theorem applyErrorInterceptors_outcome:
  "(\<exists>x w'. applyErrorInterceptors chain error w = (Rejected x, w')) \<and>
   (interceptor error w = (Rejected x, w') \<longrightarrow>
      applyErrorInterceptors (interceptor # rest) error w = (Rejected x, w')) \<and>
   (interceptor error w = (Resolved u, w') \<longrightarrow>
      applyErrorInterceptors (interceptor # rest) error w =
        applyErrorInterceptors rest error w') \<and>
   ((\<forall>i \<in> set chain. \<forall>w.
        fst (i error w) = Resolved () \<or> fst (i error w) = Rejected (ApiErr error)) \<longrightarrow>
      fst (applyErrorInterceptors chain error w) = Rejected (ApiErr error))"
  using applyErrorInterceptors_rejects [of chain error w]
    applyErrorInterceptors_reraises [of chain error w]
  by simp

theorem applyErrorInterceptors_outcome_witness:
  "fst (applyErrorInterceptors (errorInterceptors (apiClient devEnv)) serverError freshWorld) =
     Rejected (ApiErr serverError) \<and>
   applyErrorInterceptors [redirectingErrorInterceptor, replacingErrorInterceptor] serverError
     freshWorld =
     (Rejected (ApiErr serverError), freshWorld\<lparr>location_href := ''/error''\<rparr>)"
proof
  have reraise: "\<forall>i \<in> set (errorInterceptors (apiClient devEnv)). \<forall>w.
      fst (i serverError w) = Resolved () \<or> fst (i serverError w) = Rejected (ApiErr serverError)"
    by (simp add: apiClient_fields unauthorizedErrorInterceptor_def Let_def)
  from applyErrorInterceptors_outcome [where chain = "errorInterceptors (apiClient devEnv)"
      and error = serverError and w = freshWorld,
      THEN conjunct2, THEN conjunct2, THEN conjunct2, THEN mp, OF reraise]
  show "fst (applyErrorInterceptors (errorInterceptors (apiClient devEnv)) serverError freshWorld) =
     Rejected (ApiErr serverError)" .
  have first: "redirectingErrorInterceptor serverError freshWorld =
      (Rejected (ApiErr serverError), freshWorld\<lparr>location_href := ''/error''\<rparr>)"
    by (simp add: redirectingErrorInterceptor_def)
  from applyErrorInterceptors_outcome [where interceptor = redirectingErrorInterceptor
      and rest = "[replacingErrorInterceptor]" and error = serverError and w = freshWorld,
      THEN conjunct2, THEN conjunct1, THEN mp, OF first]
  show "applyErrorInterceptors [redirectingErrorInterceptor, replacingErrorInterceptor] serverError
     freshWorld =
     (Rejected (ApiErr serverError), freshWorld\<lparr>location_href := ''/error''\<rparr>)" .
qed

text \<open>
  An interceptor that throws another error replaces the one that entered the chain; and an
  interceptor registered after the default one never runs, since the default one throws:
  alone, the redirecting interceptor moves the location, behind the default one it does
  not.
\<close>

theorem error_chain_counterexample:
  "fst (applyErrorInterceptors [replacingErrorInterceptor] serverError freshWorld) =
     Rejected (JsError ''Error'' ''handled elsewhere'') \<and>
   location_href (snd (applyErrorInterceptors [redirectingErrorInterceptor] serverError
     freshWorld)) = ''/error'' \<and>
   location_href (snd (applyErrorInterceptors
     [unauthorizedErrorInterceptor False, redirectingErrorInterceptor] serverError
     freshWorld)) = ''/''"
  by (simp add: replacingErrorInterceptor_def redirectingErrorInterceptor_def
      unauthorizedErrorInterceptor_def serverError_def freshWorld_def)

section \<open>The default response interceptor\<close>

text \<open>
  Claim C6. When the request interceptors have produced the final descriptor, the fetch
  settles in time with a success status, and the body decodes to a payload, a client
  whose response chain is the default interceptor resolves with the payload's \<^verbatim>\<open>data\<close>
  field when the payload is an object that has one, and with the payload unchanged
  otherwise.
\<close>

theorem makeRequest_unwraps_envelope:
  assumes "applyRequestInterceptors (requestInterceptors svc)
             (mergedConfig svc cfg) w =
           (Resolved finalConfig, w1)"
    and "awaitFetch
           (fetch (buildUrl (config svc) url (RequestConfig.baseURL finalConfig)) finalConfig)
           (num_or (RequestConfig.timeout finalConfig) (ApiConfig.timeout (config svc))) =
         Some (FetchResponse response)"
    and "ok response"
    and "Response.json response = Resolved payload"
    and "responseInterceptors svc = [unwrapResponseInterceptor]"
  shows "fst (makeRequest svc g fetch url cfg w) =
           Resolved (case payload of
                       JObj props \<Rightarrow> (case map_of props ''data'' of Some v \<Rightarrow> v | None \<Rightarrow> payload)
                     | _ \<Rightarrow> payload)"
  using assms
  by (cases payload)
     (auto simp add: makeRequest_def afterFetch_def Let_def unwrapResponseInterceptor_def
        split: option.splits)

theorem makeRequest_unwraps_envelope_witness:
  "fst (makeRequest (apiClient devEnv) getErrorMessage (answering usersResponse) ''/users''
          emptyRequestConfig freshWorld) =
     Resolved (JArr [JObj [(''id'', JStr ''1'')]])"
  using makeRequest_unwraps_envelope [where svc = "apiClient devEnv" and cfg = emptyRequestConfig
      and w = freshWorld and ?w1.0 = freshWorld and finalConfig = jsonRequest
      and fetch = "answering usersResponse" and url = "''/users''" and response = usersResponse
      and g = getErrorMessage
      and payload = "JObj [(''data'', JArr [JObj [(''id'', JStr ''1'')]]), (''success'', JBool True)]"]
  by (simp add: apiClient_fields mergedConfig_def timerDelay_def authRequestInterceptor_def freshWorld_def
      emptyRequestConfig_def defaultConfig_def devEnv_def num_or_def jsonRequest_def
      answering_def awaitFetch_def settlesWithin_def usersResponse_def ok_def)

section \<open>The default error interceptor\<close>

text \<open>
  Claim C7. For every \<^verbatim>\<open>ApiClientError\<close> with status 401, whatever its other fields and
  whatever the state of the browser, the default error interceptor removes \<^verbatim>\<open>auth_token\<close>
  and \<^verbatim>\<open>refresh_token\<close> from the store, sets the location to \<^verbatim>\<open>/login\<close>, and re-throws the
  error; so does the error chain of the default client.
\<close>

theorem unauthorized_clears_credentials:
  assumes "ApiClientError.status error = 401"
  shows "unauthorizedErrorInterceptor debug error w =
           (Rejected (ApiErr error),
            w\<lparr>localStorage := (localStorage w)(''auth_token'' := None, ''refresh_token'' := None),
              location_href := ''/login'',
              console_errors := (if debug then console_errors w @ [error] else console_errors w)\<rparr>) \<and>
         applyErrorInterceptors (errorInterceptors (apiClient e)) error w =
           (Rejected (ApiErr error),
            w\<lparr>localStorage := (localStorage w)(''auth_token'' := None, ''refresh_token'' := None),
              location_href := ''/login'',
              console_errors :=
                (if ENABLE_DEBUG e then console_errors w @ [error] else console_errors w)\<rparr>)"
  using assms
  by (simp add: apiClient_fields unauthorizedErrorInterceptor_def Let_def)

theorem unauthorized_clears_credentials_witness:
  "ApiClientError.status unauthorizedError = 401 \<and>
   fst (applyErrorInterceptors (errorInterceptors (apiClient devEnv)) unauthorizedError signedInWorld) =
     Rejected (ApiErr unauthorizedError) \<and>
   localStorage (snd (applyErrorInterceptors (errorInterceptors (apiClient devEnv)) unauthorizedError signedInWorld)) ''auth_token'' = None \<and>
   localStorage (snd (applyErrorInterceptors (errorInterceptors (apiClient devEnv)) unauthorizedError signedInWorld)) ''refresh_token'' = None \<and>
   localStorage (snd (applyErrorInterceptors (errorInterceptors (apiClient devEnv)) unauthorizedError signedInWorld)) ''theme'' = Some ''dark'' \<and>
   location_href (snd (applyErrorInterceptors (errorInterceptors (apiClient devEnv)) unauthorizedError signedInWorld)) = ''/login''"
  using unauthorized_clears_credentials [of unauthorizedError True signedInWorld devEnv]
  by (simp add: unauthorizedError_def signedInWorld_def devEnv_def)

section \<open>The request-interceptor chain\<close>




section \<open>Numeric configuration values\<close>

text \<open>
  Claim C9. A numeric variable whose value is present and is not a valid number should
  stop configuration with an error; the error text of \<^verbatim>\<open>getNumberEnvVar\<close> itself says the
  variable "must be a valid number". The values \<^verbatim>\<open>10s\<close> and \<^verbatim>\<open>1e3\<close> are not stopped:
  \<^verbatim>\<open>parseInt\<close> reads the leading digits and ignores what follows, the result is not \<^verbatim>\<open>NaN\<close>,
  and configuration is built with the timeouts 10 and 1.
\<close>

theorem getNumberEnvVar_accepts_trailing_text:
  "getNumberEnvVar [''VITE_API_TIMEOUT'' \<mapsto> ''10s''] ''VITE_API_TIMEOUT'' (Some (Num 10000)) =
     Inr (Num 10) \<and>
   env [''VITE_API_TIMEOUT'' \<mapsto> ''10s''] = Inr (devEnv\<lparr>API_TIMEOUT := Num 10\<rparr>) \<and>
   env [''VITE_API_TIMEOUT'' \<mapsto> ''1e3''] = Inr (devEnv\<lparr>API_TIMEOUT := Num 1\<rparr>)"
  by (simp add: env_def getEnvVar_def getBooleanEnvVar_def getNumberEnvVar_def str_or_def
      parseInt_def numericPrefix_def trimStart.simps leadingWhiteSpace_def whiteSpaceCodes_def
      isDigit_def digitsValue_def digitValue_def toDouble_def devEnv_def)

text \<open>
  What the code does decide: an absent variable gives the default, and configuration fails
  exactly when the value is non-empty and, after leading white space and an optional sign,
  does not start with a decimal digit.
\<close>

lemma numericPrefix_nonempty:
  assumes "numericPrefix s \<noteq> []"
  shows "trimStart s \<noteq> []"
proof
  assume blank: "trimStart s = []"
  have "numericPrefix s = []"
    unfolding numericPrefix_def Let_def blank by simp
  with assms show False by simp
qed

lemma parseInt_NaN_iff: "parseInt s = NaN \<longleftrightarrow> numericPrefix s = []"
  by (simp add: parseInt_def Let_def split: option.splits)

lemma numericPrefix_zero: "numericPrefix ''0'' = ''0''"
  by (simp add: numericPrefix_def trimStart.simps leadingWhiteSpace_def whiteSpaceCodes_def
      isDigit_def)

lemma getNumberEnvVar_absent:
  assumes "metaEnv key = None"
  shows "getNumberEnvVar metaEnv key (Some d) = Inr d"
  using assms by (simp add: getNumberEnvVar_def)

lemma getNumberEnvVar_fails_iff:
  "isl (getNumberEnvVar metaEnv key (Some d)) \<longleftrightarrow>
     (\<exists>v. metaEnv key = Some v \<and> v \<noteq> [] \<and> numericPrefix v = [])"
  by (cases "metaEnv key")
     (auto simp add: getNumberEnvVar_def str_or_def parseInt_NaN_iff numericPrefix_zero Let_def)

lemma getEnvVar_default:
  assumes "d \<noteq> []"
  shows "\<exists>v. getEnvVar metaEnv key (Some d) = Inr v"
  using assms by (auto simp add: getEnvVar_def split: option.splits)

lemma env_fails_iff:
  "isl (env metaEnv) \<longleftrightarrow>
     (\<exists>v. metaEnv ''VITE_API_TIMEOUT'' = Some v \<and> v \<noteq> [] \<and> numericPrefix v = [])"
proof -
  obtain a where a: "getEnvVar metaEnv ''VITE_APP_NAME'' (Some ''Kurama'') = Inr a"
    using getEnvVar_default [of "''Kurama''"] by auto
  obtain b where b: "getEnvVar metaEnv ''VITE_APP_VERSION'' (Some ''1.0.0'') = Inr b"
    using getEnvVar_default [of "''1.0.0''"] by auto
  obtain c where c: "getEnvVar metaEnv ''VITE_APP_DESCRIPTION''
      (Some ''Enterprise React Application'') = Inr c"
    using getEnvVar_default [of "''Enterprise React Application''"] by auto
  obtain d where d: "getEnvVar metaEnv ''VITE_NODE_ENV'' (Some ''development'') = Inr d"
    using getEnvVar_default [of "''development''"] by auto
  obtain u where u: "getEnvVar metaEnv ''VITE_API_BASE_URL''
      (Some ''http://localhost:8000/api'') = Inr u"
    using getEnvVar_default [of "''http://localhost:8000/api''"] by auto
  have "isl (env metaEnv) \<longleftrightarrow>
      isl (getNumberEnvVar metaEnv ''VITE_API_TIMEOUT'' (Some (Num 10000)))"
    by (simp add: env_def a b c d u split: sum.splits)
  then show ?thesis
    by (simp add: getNumberEnvVar_fails_iff)
qed

lemma parseInt_rounds_to_double:
  "parseInt ''9007199254740993'' = Num 9007199254740992"
  by (simp add: parseInt_def numericPrefix_def trimStart.simps leadingWhiteSpace_def
      whiteSpaceCodes_def isDigit_def digitsValue_def digitValue_def toDouble_def bitlen.simps)

lemma parseInt_skips_no_break_space:
  "parseInt [CHR 0xC2, CHR 0xA0, CHR ''1'', CHR ''0''] = Num 10"
  by (simp add: parseInt_def numericPrefix_def trimStart.simps leadingWhiteSpace_def
      whiteSpaceCodes_def isDigit_def digitsValue_def digitValue_def toDouble_def)

section \<open>Request bodies\<close>

text \<open>
  Claim C10. \<^verbatim>\<open>post\<close>, \<^verbatim>\<open>put\<close> and \<^verbatim>\<open>patch\<close> hand \<^verbatim>\<open>makeRequest\<close> a descriptor whose body is
  absent when the data is \<^verbatim>\<open>undefined\<close>, \<^verbatim>\<open>null\<close>, \<^verbatim>\<open>0\<close>, \<^verbatim>\<open>false\<close> or the empty string, and is
  the serialization of the data otherwise (whatever body the caller's own options held).
  When the request interceptors leave the body alone, as the default one does, that is
  the body of the descriptor the fetch is issued with.
\<close>

theorem body_attached_only_when_truthy:
  "post svc g fetch stringify url data cfg w =
     makeRequest svc g fetch url
       ((spreadConfig cfg)\<lparr>method' := Some ''POST'',
          body := (if data \<in> {JUndefined, JNull, JNum 0, JBool False, JStr []} then None
                   else Some (stringify data))\<rparr>) w \<and>
   put svc g fetch stringify url data cfg w =
     makeRequest svc g fetch url
       ((spreadConfig cfg)\<lparr>method' := Some ''PUT'',
          body := (if data \<in> {JUndefined, JNull, JNum 0, JBool False, JStr []} then None
                   else Some (stringify data))\<rparr>) w \<and>
   patch svc g fetch stringify url data cfg w =
     makeRequest svc g fetch url
       ((spreadConfig cfg)\<lparr>method' := Some ''PATCH'',
          body := (if data \<in> {JUndefined, JNull, JNum 0, JBool False, JStr []} then None
                   else Some (stringify data))\<rparr>) w \<and>
   ((\<forall>i \<in> set (requestInterceptors svc). \<forall>c w c' w'.
        i c w = (Resolved c', w') \<longrightarrow> body c' = body c) \<and>
    applyRequestInterceptors (requestInterceptors svc)
      (mergedConfig svc
         ((spreadConfig cfg)\<lparr>method' := Some m, body := bodyOf stringify data\<rparr>)) w =
      (Resolved finalConfig, w1) \<longrightarrow>
    body finalConfig =
      (if data \<in> {JUndefined, JNull, JNum 0, JBool False, JStr []} then None
       else Some (stringify data)))"
proof -
  have b: "bodyOf stringify data =
      (if data \<in> {JUndefined, JNull, JNum 0, JBool False, JStr []} then None
       else Some (stringify data))"
    unfolding bodyOf_def using truthy_iff [of data] by simp
  have keep: "body finalConfig = bodyOf stringify data"
    if "\<forall>i \<in> set (requestInterceptors svc). \<forall>c w c' w'.
          i c w = (Resolved c', w') \<longrightarrow> body c' = body c"
      and "applyRequestInterceptors (requestInterceptors svc)
        (mergedConfig svc
         ((spreadConfig cfg)\<lparr>method' := Some m, body := bodyOf stringify data\<rparr>)) w =
        (Resolved finalConfig, w1)"
    using applyRequestInterceptors_preserves_body [OF that] by (simp add: mergedConfig_def)
  show ?thesis
    using keep by (simp add: post_def put_def patch_def b)
qed

theorem body_attached_only_when_truthy_witness:
  "\<forall>stringify.
     network_log (snd (post (apiClient devEnv) getErrorMessage (answering usersResponse) stringify
        ''/users'' (JNum 0) None freshWorld)) =
       [FetchIssued ''http://localhost:8000/api/users'' (jsonRequest\<lparr>method' := Some ''POST''\<rparr>)] \<and>
     network_log (snd (patch (apiClient devEnv) getErrorMessage (answering usersResponse) stringify
        ''/users'' (JObj [(''name'', JStr ''Ada'')]) None freshWorld)) =
       [FetchIssued ''http://localhost:8000/api/users''
         (jsonRequest\<lparr>method' := Some ''PATCH'',
            body := Some (stringify (JObj [(''name'', JStr ''Ada'')]))\<rparr>)] \<and>
     applyRequestInterceptors (requestInterceptors (apiClient devEnv))
       (jsonRequest\<lparr>method' := Some ''PUT'', body := bodyOf stringify (JStr [])\<rparr>)
       signedInWorld =
       (Resolved (jsonRequest\<lparr>method' := Some ''PUT'',
                    RequestConfig.headers :=
                      Some (HeadersRecord
                              [''Content-Type'' \<mapsto> HeaderText ''application/json'',
                               ''Authorization'' \<mapsto> HeaderText ''Bearer t0k3n''])\<rparr>), signedInWorld)"
proof (intro allI conjI)
  fix stringify :: "jsval \<Rightarrow> string"
  note t = body_attached_only_when_truthy [where svc = "apiClient devEnv"
      and g = getErrorMessage and fetch = "answering usersResponse" and stringify = stringify
      and url = "''/users''" and cfg = None]
  have post0: "post (apiClient devEnv) getErrorMessage (answering usersResponse) stringify
        ''/users'' (JNum 0) None freshWorld =
      makeRequest (apiClient devEnv) getErrorMessage (answering usersResponse) ''/users''
        (emptyRequestConfig\<lparr>method' := Some ''POST'', body := None\<rparr>) freshWorld"
    using t [of "JNum 0" freshWorld, THEN conjunct1] by (simp add: spreadConfig_def)
  show "network_log (snd (post (apiClient devEnv) getErrorMessage (answering usersResponse) stringify
        ''/users'' (JNum 0) None freshWorld)) =
       [FetchIssued ''http://localhost:8000/api/users'' (jsonRequest\<lparr>method' := Some ''POST''\<rparr>)]"
    unfolding post0 by (simp add: concrete_call answering_def usersResponse_def)
  have patch0: "patch (apiClient devEnv) getErrorMessage (answering usersResponse) stringify
        ''/users'' (JObj [(''name'', JStr ''Ada'')]) None freshWorld =
      makeRequest (apiClient devEnv) getErrorMessage (answering usersResponse) ''/users''
        (emptyRequestConfig\<lparr>method' := Some ''PATCH'',
           body := Some (stringify (JObj [(''name'', JStr ''Ada'')]))\<rparr>) freshWorld"
    using t [of "JObj [(''name'', JStr ''Ada'')]" freshWorld, THEN conjunct2, THEN conjunct2, THEN conjunct1]
    by (simp add: spreadConfig_def)
  show "network_log (snd (patch (apiClient devEnv) getErrorMessage (answering usersResponse) stringify
        ''/users'' (JObj [(''name'', JStr ''Ada'')]) None freshWorld)) =
       [FetchIssued ''http://localhost:8000/api/users''
         (jsonRequest\<lparr>method' := Some ''PATCH'',
            body := Some (stringify (JObj [(''name'', JStr ''Ada'')]))\<rparr>)]"
    unfolding patch0 by (simp add: concrete_call answering_def usersResponse_def)
  have keeps: "\<forall>i \<in> set (requestInterceptors (apiClient devEnv)). \<forall>c w c' w'.
        i c w = (Resolved c', w') \<longrightarrow> body c' = body c"
    using authRequestInterceptor_body by (simp add: apiClient_fields)
  have merged: "mergedConfig (apiClient devEnv)
         ((spreadConfig None)\<lparr>method' := Some ''PUT'', body := bodyOf stringify (JStr [])\<rparr>) =
       jsonRequest\<lparr>method' := Some ''PUT'', body := bodyOf stringify (JStr [])\<rparr>"
    by (simp add: mergedConfig_def spreadConfig_def emptyRequestConfig_def jsonRequest_def
        apiClient_fields defaultConfig_def)
  obtain finalConfig w1 where chain:
    "applyRequestInterceptors (requestInterceptors (apiClient devEnv))
       (jsonRequest\<lparr>method' := Some ''PUT'', body := bodyOf stringify (JStr [])\<rparr>)
       signedInWorld = (Resolved finalConfig, w1)"
    and final: "finalConfig = jsonRequest\<lparr>method' := Some ''PUT'',
                    body := bodyOf stringify (JStr []),
                    RequestConfig.headers :=
                      Some (HeadersRecord
                              [''Content-Type'' \<mapsto> HeaderText ''application/json'',
                               ''Authorization'' \<mapsto> HeaderText ''Bearer t0k3n''])\<rparr>"
    and "w1 = signedInWorld"
    by (simp add: apiClient_fields authRequestInterceptor_def signedInWorld_def jsonRequest_def)
  from body_attached_only_when_truthy [where svc = "apiClient devEnv" and stringify = stringify
      and cfg = None and data = "JStr []" and m = "''PUT''" and w = signedInWorld
      and finalConfig = finalConfig and ?w1.0 = w1,
      THEN conjunct2, THEN conjunct2, THEN conjunct2, THEN mp, OF conjI, OF keeps]
    chain merged
  have "body finalConfig = None" by simp
  with chain final \<open>w1 = signedInWorld\<close>
  show "applyRequestInterceptors (requestInterceptors (apiClient devEnv))
       (jsonRequest\<lparr>method' := Some ''PUT'', body := bodyOf stringify (JStr [])\<rparr>)
       signedInWorld =
       (Resolved (jsonRequest\<lparr>method' := Some ''PUT'',
                    RequestConfig.headers :=
                      Some (HeadersRecord
                              [''Content-Type'' \<mapsto> HeaderText ''application/json'',
                               ''Authorization'' \<mapsto> HeaderText ''Bearer t0k3n''])\<rparr>), signedInWorld)"
    by (simp add: jsonRequest_def)
qed

end
